theory Spec2Isabelle
  imports Main "HOL-Library.Word" "HOL-Library.Product_Lexorder"
begin

unbundle bit_operations_syntax

section \<open>catalog/models.py: the data model\<close>

text \<open>
  A \<open>datetime.date\<close> is its proleptic Gregorian ordinal (a day number): comparison of
  dates is comparison of ordinals and \<open>timedelta(weeks=n)\<close> adds \<open>7 * n\<close> days.
  Primary keys of the four \<open>AutoField\<close> models and of \<open>auth.User\<close> are natural numbers;
  the primary key of a BookInstance is a UUID, a 128-bit value.  A nullable column is an
  \<open>option\<close>, \<open>None\<close> being SQL NULL.  \<open>CharField\<close> and \<open>TextField\<close> values are strings.
\<close>

type_synonym date = int
type_synonym pk = nat
type_synonym uuid = "128 word"

record Genre =
  id_genre :: pk
  name_genre :: string

record Language =
  id_language :: pk
  name_language :: string

record Author =
  id_author :: pk
  first_name :: string
  last_name :: string
  date_of_birth :: "date option"
  date_of_death :: "date option"

text \<open>
  \<open>author\<close> and \<open>language\<close> are the foreign keys declared with \<open>null=True\<close>;
  \<open>genre\<close> is the many-to-many relation, the primary keys of the related genres.
\<close>

record Book =
  id_book :: pk
  title :: string
  author :: "pk option"
  summary :: string
  isbn :: string
  genre :: "pk list"
  language :: "pk option"

text \<open>
  \<open>status\<close> is the stored one-character key of \<open>LOAN_STATUS\<close> (\<open>blank=True\<close>: the empty
  string can be stored too).
\<close>

record BookInstance =
  id_bookinstance :: uuid
  book :: "pk option"
  imprint :: string
  due_back :: "date option"
  borrower :: "pk option"
  status :: string

definition LOAN_STATUS :: "(string \<times> string) list" where
  "LOAN_STATUS =
    [(''m'', ''Maintenance''),
     (''o'', ''On loan''),
     (''a'', ''Available''),
     (''r'', ''Reserved'')]"

subsection \<open>The \<open>Meta.permissions\<close> of the five models\<close>

definition Genre_permissions :: "(string \<times> string) list" where
  "Genre_permissions =
    [(''can_create_genre'', ''Create genre''),
     (''can_update_genre'', ''Update genre''),
     (''can_delete_genre'', ''Delete genre'')]"

definition Language_permissions :: "(string \<times> string) list" where
  "Language_permissions =
    [(''can_create_language'', ''Create language''),
     (''can_update_language'', ''Update language''),
     (''can_delete_language'', ''Delete language'')]"

definition Book_permissions :: "(string \<times> string) list" where
  "Book_permissions =
    [(''can_create_book'', ''Create book''),
     (''can_update_book'', ''Update book''),
     (''can_delete_book'', ''Delete book'')]"

definition BookInstance_permissions :: "(string \<times> string) list" where
  "BookInstance_permissions =
    [(''can_mark_returned'', ''Set book as returned''),
     (''can_create_bookinstance'', ''Create bookinstance''),
     (''can_update_bookinstance'', ''Update bookinstance''),
     (''can_delete_bookinstance'', ''Delete bookinstance'')]"

definition Author_permissions :: "(string \<times> string) list" where
  "Author_permissions =
    [(''can_create_author'', ''Create author''),
     (''can_update_author'', ''Update author''),
     (''can_delete_author'', ''Delete author'')]"

text \<open>The codenames the models define, in the order of the file.\<close>

definition permission_codenames :: "string list" where
  "permission_codenames =
     map fst (Genre_permissions @ Language_permissions @ Book_permissions @
              BookInstance_permissions @ Author_permissions)"

text \<open>
  The capability names as the Access Policy of the specification lists them:
  \<open>can_create_\<close>, \<open>can_update_\<close> and \<open>can_delete_\<close> for each of Genre, Language, Author,
  Book and BookInstance, plus \<open>can_mark_returned\<close>.
\<close>

definition policy_capabilities :: "string list" where
  "policy_capabilities =
     concat (map (\<lambda>entity. map (\<lambda>action. action @ entity)
                    [''can_create_'', ''can_update_'', ''can_delete_''])
               [''genre'', ''language'', ''author'', ''book'', ''bookinstance''])
     @ [''can_mark_returned'']"

subsection \<open>The entity store\<close>

text \<open>
  One table per model, a list of rows in the order of the table.  A well-formed store
  has unique primary keys.
\<close>

record store =
  Genre_objects :: "Genre list"
  Language_objects :: "Language list"
  Author_objects :: "Author list"
  Book_objects :: "Book list"
  BookInstance_objects :: "BookInstance list"

definition unique_pks :: "store \<Rightarrow> bool" where
  "unique_pks st =
     (distinct (map id_genre (Genre_objects st)) \<and>
      distinct (map id_language (Language_objects st)) \<and>
      distinct (map id_author (Author_objects st)) \<and>
      distinct (map id_book (Book_objects st)) \<and>
      distinct (map id_bookinstance (BookInstance_objects st)))"

text \<open>\<open>Model.objects.get(pk=...)\<close>: the row with the key, if there is one.\<close>

definition get_Book :: "store \<Rightarrow> pk \<Rightarrow> Book option" where
  "get_Book st k = find (\<lambda>b. id_book b = k) (Book_objects st)"

definition get_BookInstance :: "store \<Rightarrow> uuid \<Rightarrow> BookInstance option" where
  "get_BookInstance st k = find (\<lambda>i. id_bookinstance i = k) (BookInstance_objects st)"

text \<open>
  \<open>book_inst.save()\<close> of an instance whose primary key is set: an UPDATE of every
  column of the rows with that key, and an INSERT when no row has it.
\<close>

definition save_BookInstance :: "BookInstance \<Rightarrow> store \<Rightarrow> store" where
  "save_BookInstance self st =
     (if \<exists>r \<in> set (BookInstance_objects st). id_bookinstance r = id_bookinstance self
      then st\<lparr>BookInstance_objects :=
                map (\<lambda>r. if id_bookinstance r = id_bookinstance self then self else r)
                    (BookInstance_objects st)\<rparr>
      else st\<lparr>BookInstance_objects := BookInstance_objects st @ [self]\<rparr>)"

text \<open>
  \<open>on_delete=models.SET_NULL\<close>: when the referenced row is deleted, the foreign key of
  every referencing row is set to NULL; no referencing row is deleted.
\<close>

definition SET_NULL :: "('r \<Rightarrow> bool) \<Rightarrow> ('r \<Rightarrow> 'r) \<Rightarrow> 'r list \<Rightarrow> 'r list" where
  "SET_NULL references set_null rows = map (\<lambda>r. if references r then set_null r else r) rows"

text \<open>
  Deleting an Author: \<open>Book.author\<close> is the only foreign key to Author, declared with
  \<open>on_delete=models.SET_NULL\<close>.  Likewise \<open>Book.language\<close> for Language.
\<close>

definition delete_Author :: "pk \<Rightarrow> store \<Rightarrow> store" where
  "delete_Author a st =
     st\<lparr>Book_objects := SET_NULL (\<lambda>b. author b = Some a) (\<lambda>b. b\<lparr>author := None\<rparr>) (Book_objects st),
        Author_objects := filter (\<lambda>x. id_author x \<noteq> a) (Author_objects st)\<rparr>"

definition delete_Language :: "pk \<Rightarrow> store \<Rightarrow> store" where
  "delete_Language l st =
     st\<lparr>Book_objects := SET_NULL (\<lambda>b. language b = Some l) (\<lambda>b. b\<lparr>language := None\<rparr>) (Book_objects st),
        Language_objects := filter (\<lambda>x. id_language x \<noteq> l) (Language_objects st)\<rparr>"

text \<open>
  Deleting a Book: \<open>BookInstance.book\<close> is the only foreign key to Book, declared with
  \<open>on_delete=models.SET_NULL\<close>; the rows of the many-to-many relation go with the Book.
\<close>

definition delete_Book :: "pk \<Rightarrow> store \<Rightarrow> store" where
  "delete_Book k st =
     st\<lparr>BookInstance_objects :=
          SET_NULL (\<lambda>i. book i = Some k) (\<lambda>i. i\<lparr>book := None\<rparr>) (BookInstance_objects st),
        Book_objects := filter (\<lambda>b. id_book b \<noteq> k) (Book_objects st)\<rparr>"

subsection \<open>\<open>BookInstance.is_overdue\<close> and \<open>BookInstance.__str__\<close>\<close>

text \<open>
  \<open>if self.due_back and date.today() > self.due_back: return True\<close>, else False.
  A date object is always truthy, so \<open>self.due_back\<close> is falsy exactly when it is None.
  The current date is a parameter.
\<close>

definition is_overdue :: "date \<Rightarrow> BookInstance \<Rightarrow> bool" where
  "is_overdue today self =
     (case due_back self of
        None \<Rightarrow> False
      | Some d \<Rightarrow> if today > d then True else False)"

text \<open>The exceptions of the modelled code.\<close>

datatype error = AttributeError | DoesNotExist | TypeError

text \<open>\<open>str(uuid)\<close>: 32 lower-case hexadecimal digits in the groups 8-4-4-4-12.\<close>

definition hex_digit :: "nat \<Rightarrow> char" where
  "hex_digit n = ''0123456789abcdef'' ! n"

definition uuid_hex :: "uuid \<Rightarrow> string" where
  "uuid_hex w = map (\<lambda>k. hex_digit (unat (drop_bit (4 * k) w AND 15))) (rev [0..<32])"

definition str_uuid :: "uuid \<Rightarrow> string" where
  "str_uuid w =
     (let h = uuid_hex w in
      take 8 h @ ''-'' @ take 4 (drop 8 h) @ ''-'' @ take 4 (drop 12 h) @ ''-'' @
      take 4 (drop 16 h) @ ''-'' @ drop 20 h)"

text \<open>
  \<open>'{0} ({1})'.format(self.id, self.book.title)\<close>.  \<open>self.book\<close> is None when the column
  is NULL, and then \<open>.title\<close> raises AttributeError; otherwise the related Book is read
  from the store (\<open>Book.DoesNotExist\<close> if no row had the key).
\<close>

definition BookInstance_str :: "store \<Rightarrow> BookInstance \<Rightarrow> error + string" where
  "BookInstance_str st self =
     (case book self of
        None \<Rightarrow> Inl AttributeError
      | Some k \<Rightarrow>
          (case get_Book st k of
             None \<Rightarrow> Inl DoesNotExist
           | Some b \<Rightarrow> Inr (str_uuid (id_bookinstance self) @ '' ('' @ title b @ '')'')))"

section \<open>The queries the views make\<close>

text \<open>
  \<open>QuerySet.filter\<close> keeps the rows that satisfy the lookup (\<open>filter\<close> on the list of
  rows) and \<open>count()\<close> is the number of rows (\<open>length\<close>).

  \<open>name__icontains=pat\<close> is SQL \<open>LIKE '%pat%'\<close> compared without regard to the case of
  the ASCII letters: both sides are folded to lower case, and the row matches when the
  folded pattern occurs in the folded column at some position.  (The pattern of both
  lookups of the views is ASCII and has no LIKE wildcard.)
\<close>

definition ascii_lower :: "char \<Rightarrow> char" where
  "ascii_lower c =
     (let n = (of_char c :: nat) in if 65 \<le> n \<and> n \<le> 90 then char_of (n + 32) else c)"

fun startswith :: "string \<Rightarrow> string \<Rightarrow> bool" where
  "startswith s [] = True"
| "startswith [] (p # ps) = False"
| "startswith (c # cs) (p # ps) = (c = p \<and> startswith cs ps)"

fun like_contains :: "string \<Rightarrow> string \<Rightarrow> bool" where
  "like_contains [] pat = (pat = [])"
| "like_contains (c # cs) pat = (startswith (c # cs) pat \<or> like_contains cs pat)"

definition icontains :: "string \<Rightarrow> string \<Rightarrow> bool" where
  "icontains column pat = like_contains (map ascii_lower column) (map ascii_lower pat)"

text \<open>
  The property in the words of the specification: the string contains the substring,
  case-insensitively.
\<close>

definition contains_substring_ci :: "string \<Rightarrow> string \<Rightarrow> bool" where
  "contains_substring_ci s sub =
     (\<exists>before after. map ascii_lower s = before @ map ascii_lower sub @ after)"

text \<open>
  Ordering by \<open>due_back\<close>, ascending.  \<open>F('due_back').asc(nulls_last=True)\<close> puts the
  rows with NULL after all others on every database.  A plain \<open>order_by('due_back')\<close>
  is \<open>ORDER BY due_back ASC\<close>, and where NULL sorts is the database's choice: SQLite
  (the backend of a new Django project) and MySQL treat NULL as smaller than every
  value, PostgreSQL and Oracle as larger.  The backend is a parameter.  The order of rows
  with equal keys is the database's too; here they keep the order of the table.
\<close>

datatype vendor = SQLite | MySQL | PostgreSQL | Oracle

fun nulls_sort_last :: "vendor \<Rightarrow> bool" where
  "nulls_sort_last SQLite = False"
| "nulls_sort_last MySQL = False"
| "nulls_sort_last PostgreSQL = True"
| "nulls_sort_last Oracle = True"

definition due_back_key :: "bool \<Rightarrow> BookInstance \<Rightarrow> nat \<times> date" where
  "due_back_key nulls_last r =
     (case due_back r of
        None \<Rightarrow> (if nulls_last then 1 else 0, 0)
      | Some d \<Rightarrow> (if nulls_last then 0 else 1, d))"

definition order_by_due_back_asc :: "bool \<Rightarrow> BookInstance list \<Rightarrow> BookInstance list" where
  "order_by_due_back_asc nulls_last rows = sort_key (due_back_key nulls_last) rows"

text \<open>
  Non-decreasing \<open>due_back\<close> with NULL last, as the specification words it: of two rows
  in the order of the listing, either the later one has no date, or both have one and
  the earlier row's is not the greater.
\<close>

fun le_nulls_last :: "date option \<Rightarrow> date option \<Rightarrow> bool" where
  "le_nulls_last _ None = True"
| "le_nulls_last None (Some _) = False"
| "le_nulls_last (Some a) (Some b) = (a \<le> b)"

definition ascending_nulls_last :: "BookInstance list \<Rightarrow> bool" where
  "ascending_nulls_last rows = sorted_wrt le_nulls_last (map due_back rows)"

section \<open>catalog/views.py\<close>

subsection \<open>Requests, users and responses\<close>

text \<open>
  \<open>request.user\<close> is the anonymous user or a User with its primary key and the
  permissions the authentication backend grants it (\<open>'app_label.codename'\<close> strings).
\<close>

datatype user = AnonymousUser | User pk "string list"

fun is_authenticated :: "user \<Rightarrow> bool" where
  "is_authenticated AnonymousUser = False"
| "is_authenticated (User _ _) = True"

fun has_perm :: "user \<Rightarrow> string \<Rightarrow> bool" where
  "has_perm AnonymousUser perm = False"
| "has_perm (User _ perms) perm = (perm \<in> set perms)"

text \<open>
  The parts of a request the views read: the HTTP method, the user, the session (a
  dictionary; the views store an integer in it) and the \<open>renewal_date\<close> of the POST
  data, None when the field is absent or is not a date.
\<close>

record request =
  http_method :: string
  user :: user
  session :: "string \<rightharpoonup> int"
  POST_renewal_date :: "date option"

text \<open>The form shown on the renewal page: unbound with its initial date, or bound to
  the posted data with the error of its validation.\<close>

datatype RenewBookForm_state =
  Unbound date
| Bound_with_errors "date option" string

record index_context =
  num_books :: nat
  num_instances :: nat
  num_instances_available :: nat
  num_authors :: nat
  num_fantasy_genres :: nat
  num_thrones_books :: nat
  num_visits :: int

datatype template_context =
  Index_context index_context
| Renew_context RenewBookForm_state BookInstance
| List_context "BookInstance list"

text \<open>
  What a view answers: a rendered template, a redirect to the URL of a name, the
  redirect to the login page (of \<open>login_required\<close>, \<open>permission_required\<close> and the
  mixins), HTTP 403 (\<open>PermissionDenied\<close>) or HTTP 404.
\<close>

datatype response =
  Render string template_context
| HttpResponseRedirect string
| redirect_to_login
| PermissionDenied
| Http404

type_synonym view = "request \<Rightarrow> store \<Rightarrow> response \<times> store"

text \<open>
  The error taxonomy of the specification (section 7): NotFound, ValidationError, and
  Forbidden for a caller that lacks the required capability or is unauthenticated.
  Django answers such a caller with HTTP 403 or with the redirect to the login page.
\<close>

datatype signal = NotFound | ValidationError | Forbidden

fun signal_of :: "response \<Rightarrow> signal option" where
  "signal_of PermissionDenied = Some Forbidden"
| "signal_of redirect_to_login = Some Forbidden"
| "signal_of Http404 = Some NotFound"
| "signal_of (Render _ (Renew_context (Bound_with_errors _ _) _)) = Some ValidationError"
| "signal_of _ = None"

subsection \<open>\<open>index\<close>\<close>

text \<open>
  \<open>@login_required\<close>: an unauthenticated caller is redirected to the login page and the
  body does not run.  The body counts rows, reads \<open>num_visits\<close> from the session with
  the default 0 and stores it back incremented.  The view returns the response and the
  session it leaves.
\<close>

definition index :: "request \<Rightarrow> store \<Rightarrow> response \<times> (string \<rightharpoonup> int)" where
  "index req st =
     (if \<not> is_authenticated (user req) then (redirect_to_login, session req)
      else
        let num_books' = length (Book_objects st);
            num_instances' = length (BookInstance_objects st);
            num_instances_available' =
              length (filter (\<lambda>i. status i = ''a'') (BookInstance_objects st));
            num_authors' = length (Author_objects st);
            num_visits' = (case session req ''num_visits'' of None \<Rightarrow> 0 | Some n \<Rightarrow> n);
            session' = (session req)(''num_visits'' \<mapsto> num_visits' + 1);
            num_fantasy_genres' =
              length (filter (\<lambda>g. icontains (name_genre g) ''fantasy'') (Genre_objects st));
            num_thrones_books' =
              length (filter (\<lambda>b. icontains (title b) ''thrones'') (Book_objects st))
        in (Render ''index.html''
              (Index_context
                \<lparr>num_books = num_books',
                 num_instances = num_instances',
                 num_instances_available = num_instances_available',
                 num_authors = num_authors',
                 num_fantasy_genres = num_fantasy_genres',
                 num_thrones_books = num_thrones_books',
                 num_visits = num_visits'\<rparr>),
            session'))"

text \<open>
  Consecutive home-page views of one caller: each request carries the session the
  previous view left.  The store may differ from view to view (one store per view).
\<close>

fun home_page_views :: "request \<Rightarrow> store list \<Rightarrow> response list" where
  "home_page_views req [] = []"
| "home_page_views req (st # sts) =
     (case index req st of
        (resp, session') \<Rightarrow> resp # home_page_views (req\<lparr>session := session'\<rparr>) sts)"

fun num_visits_of :: "response \<Rightarrow> int option" where
  "num_visits_of (Render _ (Index_context c)) = Some (num_visits c)"
| "num_visits_of _ = None"

subsection \<open>The listings of book instances\<close>

text \<open>
  \<open>LoanedBooksByUserListView.get_queryset\<close>:
  \<open>BookInstance.objects.filter(borrower=self.request.user).filter(status__exact='o').order_by('due_back')\<close>.
  The anonymous user is no value for the foreign key (a TypeError); the view's
  \<open>LoginRequiredMixin\<close> keeps it out.  The queryset is what the view lists; the
  framework's paginator (\<open>paginate_by = 10\<close>) then shows it ten rows a page.
\<close>

definition LoanedBooksByUser_get_queryset ::
    "vendor \<Rightarrow> request \<Rightarrow> store \<Rightarrow> error + BookInstance list" where
  "LoanedBooksByUser_get_queryset db req st =
     (case user req of
        AnonymousUser \<Rightarrow> Inl TypeError
      | User uid _ \<Rightarrow>
          Inr (order_by_due_back_asc (nulls_sort_last db)
                 (filter (\<lambda>i. status i = ''o'')
                    (filter (\<lambda>i. borrower i = Some uid) (BookInstance_objects st)))))"

text \<open>
  \<open>BookinstancesAllListView.get_queryset\<close>:
  \<open>BookInstance.objects.order_by(F('due_back').asc(nulls_last=True))\<close>.
\<close>

definition BookinstancesAll_get_queryset :: "store \<Rightarrow> BookInstance list" where
  "BookinstancesAll_get_queryset st = order_by_due_back_asc True (BookInstance_objects st)"

subsection \<open>The permission gates\<close>

text \<open>
  \<open>PermissionRequiredMixin\<close> (class-based views): \<open>dispatch\<close> hands the request to the
  view only if the user has the permission; otherwise \<open>handle_no_permission\<close> raises
  PermissionDenied for an authenticated user and redirects an anonymous one to the
  login page.  \<open>@permission_required(perm)\<close> (function views, \<open>raise_exception\<close> left
  False): the view runs only if the user has the permission; otherwise the caller is
  redirected to the login page.  Neither touches the store when it refuses.
\<close>

definition PermissionRequiredMixin :: "string \<Rightarrow> view \<Rightarrow> view" where
  "PermissionRequiredMixin perm dispatch req st =
     (if has_perm (user req) perm then dispatch req st
      else if is_authenticated (user req) then (PermissionDenied, st)
      else (redirect_to_login, st))"

definition permission_required :: "string \<Rightarrow> view \<Rightarrow> view" where
  "permission_required perm view_func req st =
     (if has_perm (user req) perm then view_func req st else (redirect_to_login, st))"

text \<open>
  The privileged listing: the gate, then the template with the queryset (shown ten rows
  a page by the framework's paginator).
\<close>

definition BookinstancesAllListView :: view where
  "BookinstancesAllListView =
     PermissionRequiredMixin ''catalog.can_mark_returned''
       (\<lambda>req st. (Render ''catalog/bookinstance_list_all.html''
                     (List_context (BookinstancesAll_get_queryset st)), st))"

subsection \<open>\<open>renew_book_librarian\<close>\<close>

text \<open>
  Modelled from the spec: \<open>RenewBookForm\<close>, of \<open>catalog/forms.py\<close>, which is not among
  the sources.  The specification (4.3): the proposed date is rejected if it is in the
  past, or more than 4 weeks in the future; a required field that is absent is a
  validation error (7).  The result is the error, or the cleaned \<open>renewal_date\<close>.
\<close>

definition RenewBookForm :: "date \<Rightarrow> date option \<Rightarrow> string + date" where
  "RenewBookForm today data =
     (case data of
        None \<Rightarrow> Inl ''Enter a valid date''
      | Some d \<Rightarrow>
          if d < today then Inl ''Invalid date - renewal in past''
          else if d > today + 7 * 4 then Inl ''Invalid date - renewal more than 4 weeks ahead''
          else Inr d)"

text \<open>
  The body of the view.  The form class is a parameter \<open>form\<close>: bound to the posted
  data it gives its error (\<open>is_valid()\<close> is False) or \<open>cleaned_data['renewal_date']\<close>.
\<close>

definition renew_book_librarian_body ::
    "(date option \<Rightarrow> string + date) \<Rightarrow> date \<Rightarrow> uuid \<Rightarrow> view" where
  "renew_book_librarian_body form today k req st =
     (case get_BookInstance st k of
        None \<Rightarrow> (Http404, st)
      | Some book_inst \<Rightarrow>
          if http_method req = ''POST'' then
            (case form (POST_renewal_date req) of
               Inr renewal_date \<Rightarrow>
                 (HttpResponseRedirect ''all-bookinstances'',
                  save_BookInstance (book_inst\<lparr>due_back := Some renewal_date\<rparr>) st)
             | Inl errors \<Rightarrow>
                 (Render ''catalog/book_renew_librarian.html''
                    (Renew_context (Bound_with_errors (POST_renewal_date req) errors) book_inst),
                  st))
          else
            (Render ''catalog/book_renew_librarian.html''
               (Renew_context (Unbound (today + 7 * 3)) book_inst),
             st))"

definition renew_book_librarian ::
    "(date option \<Rightarrow> string + date) \<Rightarrow> date \<Rightarrow> uuid \<Rightarrow> view" where
  "renew_book_librarian form today k =
     permission_required ''catalog.can_mark_returned'' (renew_book_librarian_body form today k)"

subsection \<open>The generic editing views\<close>

text \<open>
  Each class names its model and its \<open>permission_required\<close>; the work is the
  framework's \<open>CreateView\<close>, \<open>UpdateView\<close> or \<open>DeleteView\<close> for that model, a parameter
  here (any view at all), behind the gate of \<open>PermissionRequiredMixin\<close>.
\<close>

definition AuthorCreate :: "(string \<Rightarrow> view) \<Rightarrow> view" where
  "AuthorCreate CreateView = PermissionRequiredMixin ''catalog.can_create_author'' (CreateView ''Author'')"

definition AuthorUpdate :: "(string \<Rightarrow> view) \<Rightarrow> view" where
  "AuthorUpdate UpdateView = PermissionRequiredMixin ''catalog.can_update_author'' (UpdateView ''Author'')"

definition AuthorDelete :: "(string \<Rightarrow> view) \<Rightarrow> view" where
  "AuthorDelete DeleteView = PermissionRequiredMixin ''catalog.can_delete_author'' (DeleteView ''Author'')"

definition BookCreate :: "(string \<Rightarrow> view) \<Rightarrow> view" where
  "BookCreate CreateView = PermissionRequiredMixin ''catalog.can_create_book'' (CreateView ''Book'')"

definition BookUpdate :: "(string \<Rightarrow> view) \<Rightarrow> view" where
  "BookUpdate UpdateView = PermissionRequiredMixin ''catalog.can_update_book'' (UpdateView ''Book'')"

definition BookDelete :: "(string \<Rightarrow> view) \<Rightarrow> view" where
  "BookDelete DeleteView = PermissionRequiredMixin ''catalog.can_delete_book'' (DeleteView ''Book'')"

definition BookInstanceCreate :: "(string \<Rightarrow> view) \<Rightarrow> view" where
  "BookInstanceCreate CreateView =
     PermissionRequiredMixin ''catalog.can_create_bookinstance'' (CreateView ''BookInstance'')"

definition BookInstanceUpdate :: "(string \<Rightarrow> view) \<Rightarrow> view" where
  "BookInstanceUpdate UpdateView =
     PermissionRequiredMixin ''catalog.can_update_bookinstance'' (UpdateView ''BookInstance'')"

definition BookInstanceDelete :: "(string \<Rightarrow> view) \<Rightarrow> view" where
  "BookInstanceDelete DeleteView =
     PermissionRequiredMixin ''catalog.can_delete_bookinstance'' (DeleteView ''BookInstance'')"

definition GenreCreate :: "(string \<Rightarrow> view) \<Rightarrow> view" where
  "GenreCreate CreateView = PermissionRequiredMixin ''catalog.can_create_genre'' (CreateView ''Genre'')"

definition GenreUpdate :: "(string \<Rightarrow> view) \<Rightarrow> view" where
  "GenreUpdate UpdateView = PermissionRequiredMixin ''catalog.can_update_genre'' (UpdateView ''Genre'')"

definition GenreDelete :: "(string \<Rightarrow> view) \<Rightarrow> view" where
  "GenreDelete DeleteView = PermissionRequiredMixin ''catalog.can_delete_genre'' (DeleteView ''Genre'')"

definition LanguageCreate :: "(string \<Rightarrow> view) \<Rightarrow> view" where
  "LanguageCreate CreateView = PermissionRequiredMixin ''catalog.can_create_language'' (CreateView ''Language'')"

definition LanguageUpdate :: "(string \<Rightarrow> view) \<Rightarrow> view" where
  "LanguageUpdate UpdateView = PermissionRequiredMixin ''catalog.can_update_language'' (UpdateView ''Language'')"

definition LanguageDelete :: "(string \<Rightarrow> view) \<Rightarrow> view" where
  "LanguageDelete DeleteView = PermissionRequiredMixin ''catalog.can_delete_language'' (DeleteView ''Language'')"

text \<open>
  The gated operations of the file, each with the permission its gate asks for: the
  privileged listing, the renewal and the fifteen mutations.
\<close>

definition gated_operations ::
    "(string \<Rightarrow> view) \<Rightarrow> (string \<Rightarrow> view) \<Rightarrow> (string \<Rightarrow> view) \<Rightarrow>
     (date option \<Rightarrow> string + date) \<Rightarrow> date \<Rightarrow> uuid \<Rightarrow> (string \<times> view) list" where
  "gated_operations CreateView UpdateView DeleteView form today k =
    [(''catalog.can_mark_returned'', BookinstancesAllListView),
     (''catalog.can_mark_returned'', renew_book_librarian form today k),
     (''catalog.can_create_author'', AuthorCreate CreateView),
     (''catalog.can_update_author'', AuthorUpdate UpdateView),
     (''catalog.can_delete_author'', AuthorDelete DeleteView),
     (''catalog.can_create_book'', BookCreate CreateView),
     (''catalog.can_update_book'', BookUpdate UpdateView),
     (''catalog.can_delete_book'', BookDelete DeleteView),
     (''catalog.can_create_bookinstance'', BookInstanceCreate CreateView),
     (''catalog.can_update_bookinstance'', BookInstanceUpdate UpdateView),
     (''catalog.can_delete_bookinstance'', BookInstanceDelete DeleteView),
     (''catalog.can_create_genre'', GenreCreate CreateView),
     (''catalog.can_update_genre'', GenreUpdate UpdateView),
     (''catalog.can_delete_genre'', GenreDelete DeleteView),
     (''catalog.can_create_language'', LanguageCreate CreateView),
     (''catalog.can_update_language'', LanguageUpdate UpdateView),
     (''catalog.can_delete_language'', LanguageDelete DeleteView)]"

section \<open>A small library\<close>

text \<open>
  The store of the example in the specification's testable properties: 3 Books, 5
  BookInstances of which 2 are available, 4 Authors, one Genre named "Epic Fantasy" and
  no Book with "thrones" in its title.  Two instances are on loan to user 1, one of them
  with no due date.
\<close>

definition loaned_undated :: BookInstance where
  "loaned_undated =
     \<lparr>id_bookinstance = 3, book = Some 1, imprint = ''Unwin 1937'', due_back = None,
      borrower = Some 1, status = ''o''\<rparr>"

definition loaned_dated :: BookInstance where
  "loaned_dated =
     \<lparr>id_bookinstance = 4, book = Some 3, imprint = ''Penguin 2003'', due_back = Some 738100,
      borrower = Some 1, status = ''o''\<rparr>"

definition example_store :: store where
  "example_store =
     \<lparr>Genre_objects = [\<lparr>id_genre = 1, name_genre = ''Epic Fantasy''\<rparr>],
      Language_objects = [\<lparr>id_language = 1, name_language = ''English''\<rparr>],
      Author_objects =
        [\<lparr>id_author = 1, first_name = ''John'', last_name = ''Tolkien'',
          date_of_birth = None, date_of_death = None\<rparr>,
         \<lparr>id_author = 2, first_name = ''Frank'', last_name = ''Herbert'',
          date_of_birth = None, date_of_death = None\<rparr>,
         \<lparr>id_author = 3, first_name = ''Jane'', last_name = ''Austen'',
          date_of_birth = None, date_of_death = None\<rparr>,
         \<lparr>id_author = 4, first_name = ''Mary'', last_name = ''Shelley'',
          date_of_birth = None, date_of_death = None\<rparr>],
      Book_objects =
        [\<lparr>id_book = 1, title = ''The Hobbit'', author = Some 1, summary = '''', isbn = '''',
          genre = [1], language = Some 1\<rparr>,
         \<lparr>id_book = 2, title = ''Dune'', author = Some 2, summary = '''', isbn = '''',
          genre = [], language = Some 1\<rparr>,
         \<lparr>id_book = 3, title = ''Emma'', author = Some 3, summary = '''', isbn = '''',
          genre = [], language = Some 1\<rparr>],
      BookInstance_objects =
        [\<lparr>id_bookinstance = 1, book = Some 1, imprint = ''Unwin 1937'', due_back = None,
          borrower = None, status = ''a''\<rparr>,
         \<lparr>id_bookinstance = 2, book = Some 2, imprint = ''Chilton 1965'', due_back = None,
          borrower = None, status = ''a''\<rparr>,
         loaned_undated,
         loaned_dated,
         \<lparr>id_bookinstance = 5, book = Some 3, imprint = ''Penguin 2003'', due_back = Some 738090,
          borrower = None, status = ''m''\<rparr>]\<rparr>"

text \<open>A request of the given user, with an empty session.\<close>

definition example_request :: "user \<Rightarrow> string \<Rightarrow> date option \<Rightarrow> request" where
  "example_request u m d =
     \<lparr>http_method = m, user = u, session = Map.empty, POST_renewal_date = d\<rparr>"

definition librarian :: user where
  "librarian = User 9 [''catalog.can_mark_returned'']"

definition member :: user where
  "member = User 1 []"

section \<open>Theorems\<close>

subsection \<open>Rows and keys\<close>

lemma find_unique:
  "distinct (map k xs) \<Longrightarrow> x \<in> set xs \<Longrightarrow> find (\<lambda>y. k y = k x) xs = Some x"
  by (induction xs) (auto simp: image_iff)

lemma find_map_preserving:
  "(\<And>y. k (f y) = k y) \<Longrightarrow> find (\<lambda>y. k y = i) (map f xs) = map_option f (find (\<lambda>y. k y = i) xs)"
  by (induction xs) auto

lemma find_SET_NULL:
  assumes "distinct (map k rows)" "r \<in> set rows" "\<And>y. k (f y) = k y"
  shows "find (\<lambda>y. k y = k r) (SET_NULL P f rows) = Some (if P r then f r else r)"
proof -
  have "find (\<lambda>y. k y = k r) (map (\<lambda>r. if P r then f r else r) rows)
        = map_option (\<lambda>r. if P r then f r else r) (find (\<lambda>y. k y = k r) rows)"
    by (rule find_map_preserving) (simp add: assms(3))
  also have "find (\<lambda>y. k y = k r) rows = Some r"
    using assms(1,2) by (rule find_unique)
  finally show ?thesis by (simp add: SET_NULL_def)
qed

lemma ids_SET_NULL:
  "(\<And>y. k (f y) = k y) \<Longrightarrow> map k (SET_NULL P f bs) = map k bs"
  by (simp add: SET_NULL_def)

lemma find_after_update:
  "\<exists>r \<in> set xs. key r = key b \<Longrightarrow>
   find (\<lambda>i. key i = key b) (map (\<lambda>r. if key r = key b then b else r) xs) = Some b"
  by (induction xs) auto

lemma find_after_insert:
  "\<not> (\<exists>r \<in> set xs. key r = key b) \<Longrightarrow> find (\<lambda>i. key i = key b) (xs @ [b]) = Some b"
  by (induction xs) auto

lemma get_after_save:
  "id_bookinstance b = k \<Longrightarrow> get_BookInstance (save_BookInstance b st) k = Some b"
proof (cases "\<exists>r \<in> set (BookInstance_objects st). id_bookinstance r = id_bookinstance b")
  case True
  assume "id_bookinstance b = k"
  with True find_after_update [of "BookInstance_objects st" id_bookinstance b] show ?thesis
    by (simp add: get_BookInstance_def save_BookInstance_def)
next
  case False
  assume "id_bookinstance b = k"
  with False find_after_insert [of "BookInstance_objects st" id_bookinstance b] show ?thesis
    by (simp add: get_BookInstance_def save_BookInstance_def)
qed

lemma get_BookInstance_SomeD:
  "get_BookInstance st k = Some b \<Longrightarrow> id_bookinstance b = k \<and> b \<in> set (BookInstance_objects st)"
  by (auto simp: get_BookInstance_def find_Some_iff)

lemma others_after_update:
  "key b = k \<Longrightarrow>
   filter (\<lambda>r. key r \<noteq> k) (map (\<lambda>r. if key r = key b then b else r) xs) = filter (\<lambda>r. key r \<noteq> k) xs"
  by (induction xs) auto

lemma save_existing:
  "get_BookInstance st k = Some b \<Longrightarrow> id_bookinstance b' = k \<Longrightarrow>
   save_BookInstance b' st =
     st\<lparr>BookInstance_objects :=
          map (\<lambda>r. if id_bookinstance r = id_bookinstance b' then b' else r) (BookInstance_objects st)\<rparr>"
  using get_BookInstance_SomeD [of st k b] by (auto simp: save_BookInstance_def)

lemma count_rows: "distinct (map k rows) \<Longrightarrow> length (filter P rows) = card {r \<in> set rows. P r}"
proof -
  assume "distinct (map k rows)"
  then have "distinct rows" by (simp add: distinct_map)
  then have "length (filter P rows) = card ({r. P r} \<inter> set rows)"
    by (rule distinct_length_filter)
  also have "{r. P r} \<inter> set rows = {r \<in> set rows. P r}" by blast
  finally show ?thesis .
qed

lemma count_all: "distinct (map k rows) \<Longrightarrow> length rows = card (set rows)"
  by (simp add: distinct_map distinct_card)

subsection \<open>Case-insensitive containment\<close>

text \<open>
  The search of \<open>like_contains\<close> finds the pattern exactly when the string is some
  prefix, the pattern and some suffix.
\<close>

lemma startswith_iff: "startswith s p \<longleftrightarrow> (\<exists>r. s = p @ r)"
  by (induction s p rule: startswith.induct) auto

lemma like_contains_iff: "like_contains s p \<longleftrightarrow> (\<exists>a b. s = a @ p @ b)"
proof (induction s)
  case Nil
  then show ?case by simp
next
  case (Cons c cs)
  have "(\<exists>a b. c # cs = a @ p @ b) \<longleftrightarrow> (\<exists>b. c # cs = p @ b) \<or> (\<exists>a b. cs = a @ p @ b)"
  proof
    assume "\<exists>a b. c # cs = a @ p @ b"
    then obtain a b where ab: "c # cs = a @ p @ b" by blast
    show "(\<exists>b. c # cs = p @ b) \<or> (\<exists>a b. cs = a @ p @ b)"
    proof (cases a)
      case Nil
      with ab show ?thesis by simp
    next
      case (Cons x a')
      with ab have "cs = a' @ p @ b" by simp
      then show ?thesis by blast
    qed
  next
    assume "(\<exists>b. c # cs = p @ b) \<or> (\<exists>a b. cs = a @ p @ b)"
    then show "\<exists>a b. c # cs = a @ p @ b"
    proof
      assume "\<exists>b. c # cs = p @ b"
      then obtain b where "c # cs = [] @ p @ b" by auto
      then show ?thesis by blast
    next
      assume "\<exists>a b. cs = a @ p @ b"
      then obtain a b where "c # cs = (c # a) @ p @ b" by auto
      then show ?thesis by blast
    qed
  qed
  with Cons show ?case by (simp add: startswith_iff)
qed

lemma icontains_iff: "icontains s sub = contains_substring_ci s sub"
  by (simp add: icontains_def contains_substring_ci_def like_contains_iff)

lemma available_key: "(map_of LOAN_STATUS s = Some ''Available'') = (s = ''a'')"
  by (simp add: LOAN_STATUS_def)

subsection \<open>The overdue flag\<close>

lemma is_overdue_None: "due_back i = None \<Longrightarrow> \<not> is_overdue today i"
  by (simp add: is_overdue_def)

text \<open>
  C4.  For every BookInstance, \<open>is_overdue\<close> is true if and only if \<open>due_back\<close> is set and
  strictly earlier than the current date; it is false when \<open>due_back\<close> is null, and false
  when \<open>due_back\<close> is today or later.
\<close>

theorem is_overdue_iff:
  "(is_overdue today i = (\<exists>d. due_back i = Some d \<and> d < today)) \<and>
   (is_overdue today (i\<lparr>due_back := None\<rparr>) = False) \<and>
   (is_overdue today (i\<lparr>due_back := Some (today + int n)\<rparr>) = False)"
  by (simp add: is_overdue_def split: option.split)

subsection \<open>Deleting referenced rows\<close>

text \<open>
  C3.  In a store with unique primary keys, for every Book \<open>b\<close> whose author is \<open>a\<close>,
  deleting the Author \<open>a\<close> leaves \<open>b\<close> in the store and reading \<open>b\<close> again yields it with
  author null; likewise deleting the Language a Book references nulls its language.
  Either deletion keeps every Book.
\<close>

theorem delete_sets_null:
  "unique_pks st \<Longrightarrow> b \<in> set (Book_objects st) \<Longrightarrow>
   (author b = Some a \<longrightarrow>
      get_Book (delete_Author a st) (id_book b) = Some (b\<lparr>author := None\<rparr>)) \<and>
   (language b = Some l \<longrightarrow>
      get_Book (delete_Language l st) (id_book b) = Some (b\<lparr>language := None\<rparr>)) \<and>
   map id_book (Book_objects (delete_Author a st)) = map id_book (Book_objects st) \<and>
   map id_book (Book_objects (delete_Language l st)) = map id_book (Book_objects st)"
  by (simp add: unique_pks_def get_Book_def delete_Author_def delete_Language_def
        find_SET_NULL [where k = id_book] ids_SET_NULL)

theorem delete_sets_null_witness:
  "unique_pks
     \<lparr>Genre_objects = [], Language_objects = [\<lparr>id_language = 2, name_language = ''English''\<rparr>],
      Author_objects = [\<lparr>id_author = 1, first_name = ''George'', last_name = ''Martin'',
                         date_of_birth = None, date_of_death = None\<rparr>],
      Book_objects = [\<lparr>id_book = 7, title = ''A Game of Thrones'', author = Some 1, summary = '''',
                       isbn = '''', genre = [], language = Some 2\<rparr>],
      BookInstance_objects = []\<rparr> \<and>
   get_Book
     (delete_Author 1
        \<lparr>Genre_objects = [], Language_objects = [\<lparr>id_language = 2, name_language = ''English''\<rparr>],
         Author_objects = [\<lparr>id_author = 1, first_name = ''George'', last_name = ''Martin'',
                            date_of_birth = None, date_of_death = None\<rparr>],
         Book_objects = [\<lparr>id_book = 7, title = ''A Game of Thrones'', author = Some 1, summary = '''',
                          isbn = '''', genre = [], language = Some 2\<rparr>],
         BookInstance_objects = []\<rparr>) 7
     = Some \<lparr>id_book = 7, title = ''A Game of Thrones'', author = None, summary = '''',
              isbn = '''', genre = [], language = Some 2\<rparr> \<and>
   get_Book
     (delete_Language 2
        \<lparr>Genre_objects = [], Language_objects = [\<lparr>id_language = 2, name_language = ''English''\<rparr>],
         Author_objects = [\<lparr>id_author = 1, first_name = ''George'', last_name = ''Martin'',
                            date_of_birth = None, date_of_death = None\<rparr>],
         Book_objects = [\<lparr>id_book = 7, title = ''A Game of Thrones'', author = Some 1, summary = '''',
                          isbn = '''', genre = [], language = Some 2\<rparr>],
         BookInstance_objects = []\<rparr>) 7
     = Some \<lparr>id_book = 7, title = ''A Game of Thrones'', author = Some 1, summary = '''',
              isbn = '''', genre = [], language = None\<rparr>"
  using delete_sets_null
    [of "\<lparr>Genre_objects = [], Language_objects = [\<lparr>id_language = 2, name_language = ''English''\<rparr>],
         Author_objects = [\<lparr>id_author = 1, first_name = ''George'', last_name = ''Martin'',
                            date_of_birth = None, date_of_death = None\<rparr>],
         Book_objects = [\<lparr>id_book = 7, title = ''A Game of Thrones'', author = Some 1, summary = '''',
                          isbn = '''', genre = [], language = Some 2\<rparr>],
         BookInstance_objects = []\<rparr>"
        "\<lparr>id_book = 7, title = ''A Game of Thrones'', author = Some 1, summary = '''',
          isbn = '''', genre = [], language = Some 2\<rparr>" 1 2]
  by (simp add: unique_pks_def)

subsection \<open>The display string of a book instance\<close>

lemma BookInstance_str_book_null:
  "BookInstance_str st (i\<lparr>book := None\<rparr>) = Inl AttributeError"
  by (simp add: BookInstance_str_def)

lemma BookInstance_str_book_set:
  "book i = Some k \<Longrightarrow> get_Book st k = Some b \<Longrightarrow>
   BookInstance_str st i = Inr (str_uuid (id_bookinstance i) @ '' ('' @ title b @ '')'')"
  by (simp add: BookInstance_str_def)

lemma delete_Book_sets_null:
  "unique_pks st \<Longrightarrow> i \<in> set (BookInstance_objects st) \<Longrightarrow> book i = Some k \<Longrightarrow>
   get_BookInstance (delete_Book k st) (id_bookinstance i) = Some (i\<lparr>book := None\<rparr>)"
  by (simp add: unique_pks_def get_BookInstance_def delete_Book_def
        find_SET_NULL [where k = id_bookinstance])

lemma get_loaned_dated: "get_BookInstance example_store 4 = Some loaned_dated"
  by (simp add: get_BookInstance_def example_store_def loaned_dated_def loaned_undated_def)

text \<open>
  C10.  The claim: producing the display string of a BookInstance succeeds also when its
  book is null, the state deleting the referenced Book leaves it in.  The code does not:
  after Book 3 of the example store is deleted, the instance that referenced it is read
  back with book null, and its \<open>__str__\<close> raises AttributeError.
\<close>

theorem BookInstance_str_after_delete_Book:
  "get_BookInstance (delete_Book 3 example_store) 4 = Some (loaned_dated\<lparr>book := None\<rparr>) \<and>
   BookInstance_str (delete_Book 3 example_store) (loaned_dated\<lparr>book := None\<rparr>) =
     Inl AttributeError"
  by (simp add: get_BookInstance_def delete_Book_def SET_NULL_def example_store_def
        loaned_dated_def loaned_undated_def BookInstance_str_def)

subsection \<open>The capability names\<close>

lemma card_permission_codenames: "card (set permission_codenames) = 16"
proof -
  have "distinct permission_codenames"
    by (simp add: permission_codenames_def Genre_permissions_def Language_permissions_def
          Book_permissions_def BookInstance_permissions_def Author_permissions_def)
  then have "card (set permission_codenames) = length permission_codenames"
    by (rule distinct_card)
  also have "\<dots> = 16"
    by (simp add: permission_codenames_def Genre_permissions_def Language_permissions_def
          Book_permissions_def BookInstance_permissions_def Author_permissions_def)
  finally show ?thesis .
qed

lemma codenames_are_policy: "set permission_codenames = set policy_capabilities"
  by (simp add: permission_codenames_def Genre_permissions_def Language_permissions_def
        Book_permissions_def BookInstance_permissions_def Author_permissions_def
        policy_capabilities_def insert_commute)

text \<open>
  C9, as amended.  The capability names the models define are exactly those the Access
  Policy lists: \<open>can_create_\<close>, \<open>can_update_\<close> and \<open>can_delete_\<close> for each of Genre,
  Language, Author, Book and BookInstance, plus \<open>can_mark_returned\<close>; this set has exactly
  sixteen members.
\<close>

theorem capability_names_sixteen:
  "set permission_codenames = set policy_capabilities \<and>
   card (set permission_codenames) = 16 \<and> card (set policy_capabilities) = 16"
  using codenames_are_policy card_permission_codenames by simp

text \<open>
  C9, as stated (the set has exactly eleven members), is false.
\<close>

theorem capability_names_not_eleven:
  "\<not> (set permission_codenames = set policy_capabilities \<and> card (set permission_codenames) = 11)"
  using card_permission_codenames by simp

subsection \<open>The home page\<close>

lemma index_authenticated:
  "is_authenticated (user req) \<Longrightarrow>
   index req st =
     (Render ''index.html''
        (Index_context
          \<lparr>num_books = length (Book_objects st),
           num_instances = length (BookInstance_objects st),
           num_instances_available = length (filter (\<lambda>i. status i = ''a'') (BookInstance_objects st)),
           num_authors = length (Author_objects st),
           num_fantasy_genres =
             length (filter (\<lambda>g. icontains (name_genre g) ''fantasy'') (Genre_objects st)),
           num_thrones_books =
             length (filter (\<lambda>b. icontains (title b) ''thrones'') (Book_objects st)),
           num_visits = (case session req ''num_visits'' of None \<Rightarrow> 0 | Some n \<Rightarrow> n)\<rparr>),
      (session req)(''num_visits'' \<mapsto> (case session req ''num_visits'' of None \<Rightarrow> 0 | Some n \<Rightarrow> n) + 1))"
  by (simp add: index_def Let_def)

lemma home_page_views_from:
  "is_authenticated (user req) \<Longrightarrow>
   map num_visits_of (home_page_views req sts) =
   map (\<lambda>j. Some ((case session req ''num_visits'' of None \<Rightarrow> 0 | Some n \<Rightarrow> n) + int j))
       [0..<length sts]"
proof (induction sts arbitrary: req)
  case Nil
  then show ?case by simp
next
  case (Cons st sts)
  let ?v = "case session req ''num_visits'' of None \<Rightarrow> 0 | Some n \<Rightarrow> n"
  let ?req' = "req\<lparr>session := (session req)(''num_visits'' \<mapsto> ?v + 1)\<rparr>"
  have auth': "is_authenticated (user ?req')" using Cons.prems by simp
  have tl: "map num_visits_of (home_page_views ?req' sts) =
            map (\<lambda>j. Some (?v + 1 + int j)) [0..<length sts]"
    using Cons.IH [OF auth'] by simp
  have upt: "[0..<length (st # sts)] = 0 # map Suc [0..<length sts]"
    by (simp add: upt_conv_Cons map_Suc_upt del: upt_Suc)
  show ?case
    unfolding upt using Cons.prems tl
    by (simp add: index_authenticated comp_def add.assoc)
qed

text \<open>
  C7.  For every session, one home-page view of an authenticated caller returns the
  visit counter the session held before the view (0 when it holds none) and leaves the
  counter equal to that value plus 1; hence consecutive views in a fresh session return
  0, 1, ..., n - 1 in order, whatever the store is at each view.
\<close>

theorem index_visit_counter:
  "is_authenticated (user req) \<Longrightarrow>
   num_visits_of (fst (index req st)) =
     Some (case session req ''num_visits'' of None \<Rightarrow> 0 | Some n \<Rightarrow> n) \<and>
   snd (index req st) ''num_visits'' =
     Some ((case session req ''num_visits'' of None \<Rightarrow> 0 | Some n \<Rightarrow> n) + 1) \<and>
   (session req ''num_visits'' = None \<longrightarrow>
      map num_visits_of (home_page_views req sts) = map (\<lambda>j. Some (int j)) [0..<length sts])"
  by (simp add: index_authenticated home_page_views_from)

theorem index_visit_counter_witness:
  "is_authenticated (user (example_request member ''GET'' None)) \<and>
   session (example_request member ''GET'' None) ''num_visits'' = None \<and>
   num_visits_of (fst (index (example_request member ''GET'' None) example_store)) = Some 0 \<and>
   snd (index (example_request member ''GET'' None) example_store) ''num_visits'' = Some 1 \<and>
   map num_visits_of
     (home_page_views (example_request member ''GET'' None)
        [example_store, delete_Book 3 example_store, example_store]) =
     [Some 0, Some 1, Some 2]"
  using index_visit_counter [of "example_request member ''GET'' None" example_store
      "[example_store, delete_Book 3 example_store, example_store]"]
  by (simp add: example_request_def member_def upt_rec)

lemma fantasy_genre: "icontains ''Epic Fantasy'' ''fantasy'' = True"
  by code_simp

lemma no_thrones:
  "icontains ''The Hobbit'' ''thrones'' = False"
  "icontains ''Dune'' ''thrones'' = False"
  "icontains ''Emma'' ''thrones'' = False"
  by code_simp+

lemma unique_pks_example: "unique_pks example_store"
  by (simp add: unique_pks_def example_store_def loaned_dated_def loaned_undated_def)

lemma index_example:
  "fst (index (example_request member ''GET'' None) example_store) =
   Render ''index.html''
     (Index_context
        \<lparr>num_books = 3, num_instances = 5, num_instances_available = 2, num_authors = 4,
         num_fantasy_genres = 1, num_thrones_books = 0, num_visits = 0\<rparr>)"
  by (simp add: index_def example_request_def member_def example_store_def loaned_dated_def
        loaned_undated_def fantasy_genre no_thrones)

text \<open>
  C6.  For every store with unique primary keys, the home page of an authenticated
  caller returns counters equal to the counts over the store at the call: the number of
  Books, of BookInstances, of BookInstances whose status is Available, of Authors, of
  Genres whose name contains "fantasy" case-insensitively and of Books whose title
  contains "thrones" case-insensitively.
\<close>

theorem index_counts:
  "is_authenticated (user req) \<Longrightarrow> unique_pks st \<Longrightarrow>
   (\<exists>c. fst (index req st) = Render ''index.html'' (Index_context c) \<and>
      num_books c = card (set (Book_objects st)) \<and>
      num_instances c = card (set (BookInstance_objects st)) \<and>
      num_instances_available c =
        card {i \<in> set (BookInstance_objects st). map_of LOAN_STATUS (status i) = Some ''Available''} \<and>
      num_authors c = card (set (Author_objects st)) \<and>
      num_fantasy_genres c =
        card {g \<in> set (Genre_objects st). contains_substring_ci (name_genre g) ''fantasy''} \<and>
      num_thrones_books c =
        card {b \<in> set (Book_objects st). contains_substring_ci (title b) ''thrones''})"
proof -
  assume auth: "is_authenticated (user req)" and u: "unique_pks st"
  have g: "distinct (map id_genre (Genre_objects st))"
    and a: "distinct (map id_author (Author_objects st))"
    and b: "distinct (map id_book (Book_objects st))"
    and i: "distinct (map id_bookinstance (BookInstance_objects st))"
    using u by (simp_all add: unique_pks_def)
  show ?thesis
    by (simp add: index_authenticated [OF auth] available_key icontains_iff [symmetric]
          count_all [OF b] count_all [OF i] count_all [OF a]
          count_rows [OF i] count_rows [OF g] count_rows [OF b])
qed

theorem index_counts_witness:
  "is_authenticated (user (example_request member ''GET'' None)) \<and>
   unique_pks example_store \<and>
   fst (index (example_request member ''GET'' None) example_store) =
     Render ''index.html''
       (Index_context
          \<lparr>num_books = 3, num_instances = 5, num_instances_available = 2, num_authors = 4,
           num_fantasy_genres = 1, num_thrones_books = 0, num_visits = 0\<rparr>) \<and>
   card (set (Book_objects example_store)) = 3 \<and>
   card (set (BookInstance_objects example_store)) = 5 \<and>
   card {i \<in> set (BookInstance_objects example_store).
           map_of LOAN_STATUS (status i) = Some ''Available''} = 2 \<and>
   card (set (Author_objects example_store)) = 4 \<and>
   card {g \<in> set (Genre_objects example_store). contains_substring_ci (name_genre g) ''fantasy''} = 1 \<and>
   card {b \<in> set (Book_objects example_store). contains_substring_ci (title b) ''thrones''} = 0"
proof -
  have auth: "is_authenticated (user (example_request member ''GET'' None))"
    by (simp add: example_request_def member_def)
  from index_counts [OF auth unique_pks_example] index_example auth unique_pks_example
  show ?thesis by auto
qed

subsection \<open>Renewal\<close>

lemma renew_body_POST:
  "get_BookInstance st k = Some b \<Longrightarrow> http_method req = ''POST'' \<Longrightarrow>
   renew_book_librarian_body form today k req st =
     (case form (POST_renewal_date req) of
        Inr renewal_date \<Rightarrow>
          (HttpResponseRedirect ''all-bookinstances'',
           save_BookInstance (b\<lparr>due_back := Some renewal_date\<rparr>) st)
      | Inl errors \<Rightarrow>
          (Render ''catalog/book_renew_librarian.html''
             (Renew_context (Bound_with_errors (POST_renewal_date req) errors) b), st))"
  by (simp add: renew_book_librarian_body_def)

lemma RenewBookForm_rejects:
  "d < today \<or> today + 28 < d \<Longrightarrow> \<exists>e. RenewBookForm today (Some d) = Inl e"
  by (auto simp: RenewBookForm_def)

lemma RenewBookForm_accepts:
  "today \<le> d \<Longrightarrow> d \<le> today + 28 \<Longrightarrow> RenewBookForm today (Some d) = Inr d"
  by (auto simp: RenewBookForm_def)

text \<open>
  C1.  For every renewal request (a POST with a proposed date, by a caller with
  \<open>can_mark_returned\<close>) on an existing BookInstance: if the proposed date is earlier than
  today or more than 28 days after today, the view answers with the form and its
  validation error and the store, hence the instance's \<open>due_back\<close>, is unchanged; if the
  date is within bounds, the view redirects and the stored instance has \<open>due_back\<close> set to
  the proposed date.
\<close>

theorem renew_validation:
  assumes perm: "has_perm (user req) ''catalog.can_mark_returned''"
    and post: "http_method req = ''POST''"
    and data: "POST_renewal_date req = Some d"
    and inst: "get_BookInstance st k = Some b"
  shows "(d < today \<or> today + 28 < d \<longrightarrow>
            (\<exists>e. renew_book_librarian (RenewBookForm today) today k req st =
                   (Render ''catalog/book_renew_librarian.html''
                      (Renew_context (Bound_with_errors (Some d) e) b), st)) \<and>
            signal_of (fst (renew_book_librarian (RenewBookForm today) today k req st)) =
              Some ValidationError \<and>
            get_BookInstance (snd (renew_book_librarian (RenewBookForm today) today k req st)) k =
              Some b) \<and>
         (today \<le> d \<and> d \<le> today + 28 \<longrightarrow>
            fst (renew_book_librarian (RenewBookForm today) today k req st) =
              HttpResponseRedirect ''all-bookinstances'' \<and>
            get_BookInstance (snd (renew_book_librarian (RenewBookForm today) today k req st)) k =
              Some (b\<lparr>due_back := Some d\<rparr>))"
proof -
  have run: "renew_book_librarian (RenewBookForm today) today k req st =
             (case RenewBookForm today (Some d) of
                Inr renewal_date \<Rightarrow>
                  (HttpResponseRedirect ''all-bookinstances'',
                   save_BookInstance (b\<lparr>due_back := Some renewal_date\<rparr>) st)
              | Inl errors \<Rightarrow>
                  (Render ''catalog/book_renew_librarian.html''
                     (Renew_context (Bound_with_errors (Some d) errors) b), st))"
    using perm data by (simp add: renew_book_librarian_def permission_required_def
        renew_body_POST [OF inst post] split: sum.split)
  have key: "id_bookinstance b = k"
    using get_BookInstance_SomeD [OF inst] by simp
  have rejected: ?thesis if "d < today \<or> today + 28 < d"
  proof -
    from RenewBookForm_rejects [OF that] obtain e where "RenewBookForm today (Some d) = Inl e" ..
    with run that inst show ?thesis by auto
  qed
  have accepted: ?thesis if "today \<le> d \<and> d \<le> today + 28"
  proof -
    from that have "RenewBookForm today (Some d) = Inr d"
      by (simp add: RenewBookForm_accepts)
    with run that key show ?thesis by (simp add: get_after_save)
  qed
  show ?thesis
  proof (cases "d < today \<or> today + 28 < d")
    case True
    then show ?thesis by (rule rejected)
  next
    case False
    then have "today \<le> d \<and> d \<le> today + 28" by linarith
    then show ?thesis by (rule accepted)
  qed
qed

theorem renew_validation_witness:
  "has_perm librarian ''catalog.can_mark_returned'' \<and>
   get_BookInstance example_store 4 = Some loaned_dated \<and>
   fst (renew_book_librarian (RenewBookForm 738000) 738000 4
          (example_request librarian ''POST'' (Some 738014)) example_store) =
     HttpResponseRedirect ''all-bookinstances'' \<and>
   get_BookInstance
     (snd (renew_book_librarian (RenewBookForm 738000) 738000 4
             (example_request librarian ''POST'' (Some 738014)) example_store)) 4 =
     Some (loaned_dated\<lparr>due_back := Some 738014\<rparr>) \<and>
   signal_of
     (fst (renew_book_librarian (RenewBookForm 738000) 738000 4
             (example_request librarian ''POST'' (Some 738029)) example_store)) =
     Some ValidationError \<and>
   get_BookInstance
     (snd (renew_book_librarian (RenewBookForm 738000) 738000 4
             (example_request librarian ''POST'' (Some 738029)) example_store)) 4 =
     Some loaned_dated"
  using
    renew_validation [of "example_request librarian ''POST'' (Some 738014)" 738014
      example_store 4 loaned_dated 738000]
    renew_validation [of "example_request librarian ''POST'' (Some 738029)" 738029
      example_store 4 loaned_dated 738000]
  by (simp add: get_loaned_dated example_request_def librarian_def)

text \<open>
  C2.  For every successful renewal (the view answers with its redirect), whatever the
  form class, the instance existed before, and after the renewal its primary key,
  status, book, imprint and borrower are what they were; every other row and every
  other table is unchanged too.
\<close>

theorem renew_frame:
  assumes ok: "renew_book_librarian form today k req st = (HttpResponseRedirect url, st')"
  shows "\<exists>b b'. get_BookInstance st k = Some b \<and> get_BookInstance st' k = Some b' \<and>
           id_bookinstance b' = id_bookinstance b \<and>
           status b' = status b \<and> book b' = book b \<and>
           imprint b' = imprint b \<and> borrower b' = borrower b \<and>
           filter (\<lambda>r. id_bookinstance r \<noteq> k) (BookInstance_objects st') =
             filter (\<lambda>r. id_bookinstance r \<noteq> k) (BookInstance_objects st) \<and>
           Book_objects st' = Book_objects st \<and> Author_objects st' = Author_objects st \<and>
           Genre_objects st' = Genre_objects st \<and> Language_objects st' = Language_objects st"
proof -
  from ok have body: "renew_book_librarian_body form today k req st = (HttpResponseRedirect url, st')"
    by (auto simp: renew_book_librarian_def permission_required_def split: if_splits)
  then obtain b where inst: "get_BookInstance st k = Some b"
    by (auto simp: renew_book_librarian_body_def split: option.splits)
  from body inst obtain d where st': "st' = save_BookInstance (b\<lparr>due_back := Some d\<rparr>) st"
    by (auto simp: renew_book_librarian_body_def split: if_splits sum.splits)
  have key: "id_bookinstance (b\<lparr>due_back := Some d\<rparr>) = k"
    using get_BookInstance_SomeD [OF inst] by simp
  have after: "get_BookInstance st' k = Some (b\<lparr>due_back := Some d\<rparr>)"
    unfolding st' using key by (rule get_after_save)
  have tables: "st' = st\<lparr>BookInstance_objects :=
       map (\<lambda>r. if id_bookinstance r = id_bookinstance (b\<lparr>due_back := Some d\<rparr>)
                 then b\<lparr>due_back := Some d\<rparr> else r) (BookInstance_objects st)\<rparr>"
    unfolding st' using inst key by (rule save_existing)
  have others: "filter (\<lambda>r. id_bookinstance r \<noteq> k) (BookInstance_objects st') =
                filter (\<lambda>r. id_bookinstance r \<noteq> k) (BookInstance_objects st)"
    using others_after_update [of id_bookinstance "b\<lparr>due_back := Some d\<rparr>" k "BookInstance_objects st"] key
    by (simp add: tables)
  from inst after others tables show ?thesis by simp
qed

lemma renew_example:
  "renew_book_librarian (RenewBookForm 738000) 738000 4
     (example_request librarian ''POST'' (Some 738014)) example_store =
   (HttpResponseRedirect ''all-bookinstances'',
    save_BookInstance (loaned_dated\<lparr>due_back := Some 738014\<rparr>) example_store)"
  by (simp add: renew_book_librarian_def permission_required_def renew_book_librarian_body_def
        get_loaned_dated example_request_def librarian_def RenewBookForm_def)

theorem renew_frame_witness:
  "renew_book_librarian (RenewBookForm 738000) 738000 4
     (example_request librarian ''POST'' (Some 738014)) example_store =
   (HttpResponseRedirect ''all-bookinstances'',
    save_BookInstance (loaned_dated\<lparr>due_back := Some 738014\<rparr>) example_store) \<and>
   (\<exists>b'. get_BookInstance
            (save_BookInstance (loaned_dated\<lparr>due_back := Some 738014\<rparr>) example_store) 4 = Some b' \<and>
         id_bookinstance b' = 4 \<and> status b' = ''o'' \<and> book b' = Some 3 \<and>
         imprint b' = ''Penguin 2003'' \<and> borrower b' = Some 1)"
  using renew_frame [OF renew_example] renew_example
  by (auto simp: get_loaned_dated loaned_dated_def)

subsection \<open>The permission gates\<close>

lemma mixin_refuses:
  "\<not> has_perm (user req) perm \<Longrightarrow>
   signal_of (fst (PermissionRequiredMixin perm v req st)) = Some Forbidden \<and>
   snd (PermissionRequiredMixin perm v req st) = st \<and>
   fst (PermissionRequiredMixin perm v req st') = fst (PermissionRequiredMixin perm v req st)"
  by (simp add: PermissionRequiredMixin_def)

lemma decorator_refuses:
  "\<not> has_perm (user req) perm \<Longrightarrow>
   signal_of (fst (permission_required perm v req st)) = Some Forbidden \<and>
   snd (permission_required perm v req st) = st \<and>
   fst (permission_required perm v req st') = fst (permission_required perm v req st)"
  by (simp add: permission_required_def)

lemma gated_operations_gate:
  "(perm, op) \<in> set (gated_operations CreateView UpdateView DeleteView form today k) \<Longrightarrow>
   (\<exists>v. op = PermissionRequiredMixin perm v) \<or> (\<exists>v. op = permission_required perm v)"
  unfolding gated_operations_def BookinstancesAllListView_def renew_book_librarian_def
    AuthorCreate_def AuthorUpdate_def AuthorDelete_def BookCreate_def BookUpdate_def BookDelete_def
    BookInstanceCreate_def BookInstanceUpdate_def BookInstanceDelete_def
    GenreCreate_def GenreUpdate_def GenreDelete_def
    LanguageCreate_def LanguageUpdate_def LanguageDelete_def
  by (elim set_ConsD [elim_format] disjE; simp; blast)

text \<open>
  C8.  For every gated operation (the fifteen mutations, the renewal and the privileged
  listing, whatever the framework's editing views and the form are) and every caller
  lacking the permission of its gate: the answer is a Forbidden signal (HTTP 403, or the
  redirect to the login page), the store is returned as it was, and the answer is the
  same for every store, so nothing of the store was read.  In particular the renewal by
  a caller lacking \<open>can_mark_returned\<close> leaves the instance, and so its \<open>due_back\<close>,
  unchanged.
\<close>

theorem gate_refuses:
  assumes gated: "(perm, op) \<in> set (gated_operations CreateView UpdateView DeleteView form today k)"
    and lacks: "\<not> has_perm (user req) perm"
  shows "signal_of (fst (op req st)) = Some Forbidden \<and>
         snd (op req st) = st \<and>
         fst (op req st') = fst (op req st) \<and>
         (perm = ''catalog.can_mark_returned'' \<longrightarrow>
            get_BookInstance (snd (renew_book_librarian form today k req st)) k =
              get_BookInstance st k)"
proof -
  have renewal: "perm = ''catalog.can_mark_returned'' \<longrightarrow>
      get_BookInstance (snd (renew_book_librarian form today k req st)) k = get_BookInstance st k"
    using lacks by (auto simp: renew_book_librarian_def permission_required_def)
  from gated_operations_gate [OF gated] show ?thesis
  proof
    assume "\<exists>v. op = PermissionRequiredMixin perm v"
    then obtain v where "op = PermissionRequiredMixin perm v" ..
    with mixin_refuses [OF lacks, of v st st'] renewal show ?thesis by simp
  next
    assume "\<exists>v. op = permission_required perm v"
    then obtain v where "op = permission_required perm v" ..
    with decorator_refuses [OF lacks, of v st st'] renewal show ?thesis by simp
  qed
qed

theorem gate_refuses_witness:
  "(''catalog.can_mark_returned'', renew_book_librarian (RenewBookForm 738000) 738000 4)
     \<in> set (gated_operations (\<lambda>m req st. (Http404, st)) (\<lambda>m req st. (Http404, st))
               (\<lambda>m req st. (Http404, st)) (RenewBookForm 738000) 738000 4) \<and>
   (''catalog.can_delete_author'', AuthorDelete (\<lambda>m req st. (Http404, delete_Author 1 st)))
     \<in> set (gated_operations (\<lambda>m req st. (Http404, st)) (\<lambda>m req st. (Http404, st))
               (\<lambda>m req st. (Http404, delete_Author 1 st)) (RenewBookForm 738000) 738000 4) \<and>
   \<not> has_perm (user (example_request member ''POST'' (Some 738014))) ''catalog.can_mark_returned'' \<and>
   \<not> has_perm (user (example_request member ''POST'' None)) ''catalog.can_delete_author'' \<and>
   renew_book_librarian (RenewBookForm 738000) 738000 4
     (example_request member ''POST'' (Some 738014)) example_store =
     (redirect_to_login, example_store) \<and>
   get_BookInstance
     (snd (renew_book_librarian (RenewBookForm 738000) 738000 4
             (example_request member ''POST'' (Some 738014)) example_store)) 4 =
     Some loaned_dated \<and>
   AuthorDelete (\<lambda>m req st. (Http404, delete_Author 1 st))
     (example_request member ''POST'' None) example_store =
     (PermissionDenied, example_store)"
proof -
  have m1: "(''catalog.can_mark_returned'', renew_book_librarian (RenewBookForm 738000) 738000 4)
     \<in> set (gated_operations (\<lambda>m req st. (Http404, st)) (\<lambda>m req st. (Http404, st))
               (\<lambda>m req st. (Http404, st)) (RenewBookForm 738000) 738000 4)"
    by (simp add: gated_operations_def)
  have m2: "(''catalog.can_delete_author'', AuthorDelete (\<lambda>m req st. (Http404, delete_Author 1 st)))
     \<in> set (gated_operations (\<lambda>m req st. (Http404, st)) (\<lambda>m req st. (Http404, st))
               (\<lambda>m req st. (Http404, delete_Author 1 st)) (RenewBookForm 738000) 738000 4)"
    by (simp add: gated_operations_def)
  have l1: "\<not> has_perm (user (example_request member ''POST'' (Some 738014))) ''catalog.can_mark_returned''"
    by (simp add: example_request_def member_def)
  have l2: "\<not> has_perm (user (example_request member ''POST'' None)) ''catalog.can_delete_author''"
    by (simp add: example_request_def member_def)
  have r1: "fst (renew_book_librarian (RenewBookForm 738000) 738000 4
     (example_request member ''POST'' (Some 738014)) example_store) = redirect_to_login"
    using l1 by (simp add: renew_book_librarian_def permission_required_def)
  have r2: "fst (AuthorDelete (\<lambda>m req st. (Http404, delete_Author 1 st))
     (example_request member ''POST'' None) example_store) = PermissionDenied"
    using l2 by (simp add: AuthorDelete_def PermissionRequiredMixin_def example_request_def member_def)
  from gate_refuses [OF m1 l1, of example_store example_store]
       gate_refuses [OF m2 l2, of example_store example_store]
       m1 m2 l1 l2 r1 r2
  show ?thesis by (simp add: get_loaned_dated prod_eq_iff)
qed

subsection \<open>The listings\<close>

text \<open>
  The privileged listing asks for NULL last and is in non-decreasing order of
  \<open>due_back\<close> with NULL last on every database.  "My loaned books" returns exactly the
  caller's instances on loan, and is in that order where the database sorts NULL last.
\<close>

lemma key_le_nulls_last:
  "due_back_key True x \<le> due_back_key True y \<Longrightarrow> le_nulls_last (due_back x) (due_back y)"
  by (cases "due_back x"; cases "due_back y") (auto simp: due_back_key_def)

lemma order_by_nulls_last_ascending: "ascending_nulls_last (order_by_due_back_asc True rows)"
proof -
  have "sorted (map (due_back_key True) (sort_key (due_back_key True) rows))"
    by (rule sorted_sort_key)
  then have "sorted_wrt (\<lambda>x y. due_back_key True x \<le> due_back_key True y)
               (sort_key (due_back_key True) rows)"
    by (simp add: sorted_wrt_map)
  then have "sorted_wrt (\<lambda>x y. le_nulls_last (due_back x) (due_back y))
               (sort_key (due_back_key True) rows)"
    by (rule sorted_wrt_mono_rel [rotated]) (simp add: key_le_nulls_last)
  then show ?thesis
    by (simp add: ascending_nulls_last_def order_by_due_back_asc_def sorted_wrt_map)
qed

lemma BookinstancesAll_ascending: "ascending_nulls_last (BookinstancesAll_get_queryset st)"
  by (simp add: BookinstancesAll_get_queryset_def order_by_nulls_last_ascending)

lemma LoanedBooksByUser_rows:
  "LoanedBooksByUser_get_queryset db req st = Inr rows \<Longrightarrow> user req = User uid perms \<Longrightarrow>
   set rows = {i \<in> set (BookInstance_objects st). borrower i = Some uid \<and> status i = ''o''} \<and>
   length rows = length (filter (\<lambda>i. borrower i = Some uid \<and> status i = ''o'') (BookInstance_objects st))"
  by (auto simp: LoanedBooksByUser_get_queryset_def order_by_due_back_asc_def)

lemma LoanedBooksByUser_ascending_where_nulls_sort_last:
  "nulls_sort_last db \<Longrightarrow> LoanedBooksByUser_get_queryset db req st = Inr rows \<Longrightarrow>
   ascending_nulls_last rows"
  by (auto simp: LoanedBooksByUser_get_queryset_def order_by_nulls_last_ascending
           split: user.splits)

text \<open>
  C5.  The claim: "My loaned books" is sorted by \<open>due_back\<close> with the rows without a date
  after all others.  The code orders by a plain \<open>order_by('due_back')\<close>, and on SQLite the
  row without a date comes first: for user 1 of the example store the listing is the
  undated instance, then the dated one.
\<close>

theorem LoanedBooksByUser_nulls_first_on_sqlite:
  "LoanedBooksByUser_get_queryset SQLite (example_request member ''GET'' None) example_store =
     Inr [loaned_undated, loaned_dated] \<and>
   map due_back [loaned_undated, loaned_dated] = [None, Some 738100] \<and>
   \<not> ascending_nulls_last [loaned_undated, loaned_dated]"
  by (simp add: LoanedBooksByUser_get_queryset_def example_request_def member_def
        example_store_def loaned_dated_def loaned_undated_def order_by_due_back_asc_def
        due_back_key_def ascending_nulls_last_def)

end
